theory Spec2Isabelle
  imports Main "HOL-Library.Word"
begin

section \<open>OpenFIREshared.h: the shared board assets of class \<open>OF_Const\<close>\<close>

text \<open>
  The header declares anonymous unscoped enumerations and static constant tables.
  An enumerator is an \<open>int\<close> constant: one written with \<open>= v\<close> has that value, any
  other has the value of the enumerator before it plus one (and the first of an
  enumeration without an initialiser is 0). Each enumerator below is defined by that rule,
  in the order of the source. All values are compile-time constants far below the range of
  a 32-bit \<open>int\<close>, so \<open>int\<close> models them without wrap-around.
\<close>

named_theorems enum_defs \<open>defining equations of the enumerators\<close>

subsection \<open>Inputs: \<open>boardInputs_e\<close>\<close>

definition unavailable :: int where [enum_defs]: "unavailable = -2"
definition btnUnmapped :: int where [enum_defs]: "btnUnmapped = -1"
definition btnTrigger :: int where [enum_defs]: "btnTrigger = 0"
definition btnGunA :: int where [enum_defs]: "btnGunA = btnTrigger + 1"
definition btnGunB :: int where [enum_defs]: "btnGunB = btnGunA + 1"
definition btnGunC :: int where [enum_defs]: "btnGunC = btnGunB + 1"
definition btnStart :: int where [enum_defs]: "btnStart = btnGunC + 1"
definition btnSelect :: int where [enum_defs]: "btnSelect = btnStart + 1"
definition btnGunUp :: int where [enum_defs]: "btnGunUp = btnSelect + 1"
definition btnGunDown :: int where [enum_defs]: "btnGunDown = btnGunUp + 1"
definition btnGunLeft :: int where [enum_defs]: "btnGunLeft = btnGunDown + 1"
definition btnGunRight :: int where [enum_defs]: "btnGunRight = btnGunLeft + 1"
definition btnPedal :: int where [enum_defs]: "btnPedal = btnGunRight + 1"
definition btnPedal2 :: int where [enum_defs]: "btnPedal2 = btnPedal + 1"
definition btnPump :: int where [enum_defs]: "btnPump = btnPedal2 + 1"
definition btnHome :: int where [enum_defs]: "btnHome = btnPump + 1"
definition rumblePin :: int where [enum_defs]: "rumblePin = btnHome + 1"
definition solenoidPin :: int where [enum_defs]: "solenoidPin = rumblePin + 1"
definition rumbleSwitch :: int where [enum_defs]: "rumbleSwitch = solenoidPin + 1"
definition solenoidSwitch :: int where [enum_defs]: "solenoidSwitch = rumbleSwitch + 1"
definition autofireSwitch :: int where [enum_defs]: "autofireSwitch = solenoidSwitch + 1"
definition neoPixel :: int where [enum_defs]: "neoPixel = autofireSwitch + 1"
definition ledR :: int where [enum_defs]: "ledR = neoPixel + 1"
definition ledG :: int where [enum_defs]: "ledG = ledR + 1"
definition ledB :: int where [enum_defs]: "ledB = ledG + 1"
definition camSDA :: int where [enum_defs]: "camSDA = ledB + 1"
definition camSCL :: int where [enum_defs]: "camSCL = camSDA + 1"
definition periphSDA :: int where [enum_defs]: "periphSDA = camSCL + 1"
definition periphSCL :: int where [enum_defs]: "periphSCL = periphSDA + 1"
definition battery :: int where [enum_defs]: "battery = periphSCL + 1"
definition analogX :: int where [enum_defs]: "analogX = battery + 1"
definition analogY :: int where [enum_defs]: "analogY = analogX + 1"
definition tempPin :: int where [enum_defs]: "tempPin = analogY + 1"
definition wiiClockGen :: int where [enum_defs]: "wiiClockGen = tempPin + 1"
definition boardInputsCount :: int where [enum_defs]: "boardInputsCount = wiiClockGen + 1"

text \<open>The enumerators of \<open>boardInputs_e\<close> in declaration order.\<close>

definition boardInputs_e :: "int list" where
  "boardInputs_e =
    [unavailable, btnUnmapped, btnTrigger, btnGunA, btnGunB, btnGunC, btnStart, btnSelect,
     btnGunUp, btnGunDown, btnGunLeft, btnGunRight, btnPedal, btnPedal2, btnPump, btnHome,
     rumblePin, solenoidPin, rumbleSwitch, solenoidSwitch, autofireSwitch, neoPixel,
     ledR, ledG, ledB, camSDA, camSCL, periphSDA, periphSCL, battery, analogX, analogY,
     tempPin, wiiClockGen, boardInputsCount]"

subsection \<open>Boolean/toggle settings: \<open>boolTypes_e\<close>\<close>

definition customPins :: int where [enum_defs]: "customPins = 0"
definition rumble :: int where [enum_defs]: "rumble = customPins + 1"
definition solenoid :: int where [enum_defs]: "solenoid = rumble + 1"
definition autofire :: int where [enum_defs]: "autofire = solenoid + 1"
definition simplePause :: int where [enum_defs]: "simplePause = autofire + 1"
definition holdToPause :: int where [enum_defs]: "holdToPause = simplePause + 1"
definition commonAnode :: int where [enum_defs]: "commonAnode = holdToPause + 1"
definition lowButtonsMode :: int where [enum_defs]: "lowButtonsMode = commonAnode + 1"
definition rumbleFF :: int where [enum_defs]: "rumbleFF = lowButtonsMode + 1"
definition invertStaticPixels :: int where [enum_defs]: "invertStaticPixels = rumbleFF + 1"
definition boolTypesCount :: int where [enum_defs]: "boolTypesCount = invertStaticPixels + 1"

definition boolTypes_e :: "int list" where
  "boolTypes_e =
    [customPins, rumble, solenoid, autofire, simplePause, holdToPause, commonAnode,
     lowButtonsMode, rumbleFF, invertStaticPixels, boolTypesCount]"

subsection \<open>Variable settings: \<open>settingsTypes_e\<close>\<close>

definition rumbleStrength :: int where [enum_defs]: "rumbleStrength = 0"
definition rumbleInterval :: int where [enum_defs]: "rumbleInterval = rumbleStrength + 1"
definition solenoidOnLength :: int where [enum_defs]: "solenoidOnLength = rumbleInterval + 1"
definition solenoidOffLength :: int where [enum_defs]: "solenoidOffLength = solenoidOnLength + 1"
definition solenoidHoldLength :: int where [enum_defs]: "solenoidHoldLength = solenoidOffLength + 1"
definition holdToPauseLength :: int where [enum_defs]: "holdToPauseLength = solenoidHoldLength + 1"
definition customLEDcount :: int where [enum_defs]: "customLEDcount = holdToPauseLength + 1"
definition customLEDstatic :: int where [enum_defs]: "customLEDstatic = customLEDcount + 1"
definition customLEDcolor1 :: int where [enum_defs]: "customLEDcolor1 = customLEDstatic + 1"
definition customLEDcolor2 :: int where [enum_defs]: "customLEDcolor2 = customLEDcolor1 + 1"
definition customLEDcolor3 :: int where [enum_defs]: "customLEDcolor3 = customLEDcolor2 + 1"
definition tempWarning :: int where [enum_defs]: "tempWarning = customLEDcolor3 + 1"
definition tempShutdown :: int where [enum_defs]: "tempShutdown = tempWarning + 1"
definition settingsTypesCount :: int where [enum_defs]: "settingsTypesCount = tempShutdown + 1"

definition settingsTypes_e :: "int list" where
  "settingsTypes_e =
    [rumbleStrength, rumbleInterval, solenoidOnLength, solenoidOffLength, solenoidHoldLength,
     holdToPauseLength, customLEDcount, customLEDstatic, customLEDcolor1, customLEDcolor2,
     customLEDcolor3, tempWarning, tempShutdown, settingsTypesCount]"

subsection \<open>Profile synchronisation fields: \<open>profSyncTypes_e\<close>\<close>

definition profTopOffset :: int where [enum_defs]: "profTopOffset = 0"
definition profBottomOffset :: int where [enum_defs]: "profBottomOffset = profTopOffset + 1"
definition profLeftOffset :: int where [enum_defs]: "profLeftOffset = profBottomOffset + 1"
definition profRightOffset :: int where [enum_defs]: "profRightOffset = profLeftOffset + 1"
definition profTLled :: int where [enum_defs]: "profTLled = profRightOffset + 1"
definition profTRled :: int where [enum_defs]: "profTRled = profTLled + 1"
definition profAdjX :: int where [enum_defs]: "profAdjX = profTRled + 1"
definition profAdjY :: int where [enum_defs]: "profAdjY = profAdjX + 1"
definition profIrSens :: int where [enum_defs]: "profIrSens = profAdjY + 1"
definition profRunMode :: int where [enum_defs]: "profRunMode = profIrSens + 1"
definition profIrLayout :: int where [enum_defs]: "profIrLayout = profRunMode + 1"
definition profColor :: int where [enum_defs]: "profColor = profIrLayout + 1"
definition profDataTypes :: int where [enum_defs]: "profDataTypes = profColor + 1"
definition profName :: int where [enum_defs]: "profName = 0xFA"

definition profSyncTypes_e :: "int list" where
  "profSyncTypes_e =
    [profTopOffset, profBottomOffset, profLeftOffset, profRightOffset, profTLled, profTRled,
     profAdjX, profAdjY, profIrSens, profRunMode, profIrLayout, profColor, profDataTypes,
     profName]"

subsection \<open>Serial control/signal codes: \<open>serialCmdTypes_e\<close>\<close>

text \<open>
  The source's comment on the enumeration: ASCII 128+ should be for the board to send,
  the control codes 0-32 for the app to send, and ASCII 33-127 should be avoided whenever
  possible. The enumerators are declared in blocks, each under a comment line; the blocks
  are kept below as lists named after those comments.
\<close>

text \<open>Docking commands\<close>

definition sDock1 :: int where [enum_defs]: "sDock1 = 1"
definition sDock2 :: int where [enum_defs]: "sDock2 = sDock1 + 1"

definition dockingCommands :: "int list" where
  "dockingCommands = [sDock1, sDock2]"

text \<open>Mode toggles from app\<close>

definition sIRTest :: int where [enum_defs]: "sIRTest = 5"
definition sCaliProfile :: int where [enum_defs]: "sCaliProfile = sIRTest + 1"
definition sCaliStart :: int where [enum_defs]: "sCaliStart = sCaliProfile + 1"
definition sCaliSens :: int where [enum_defs]: "sCaliSens = sCaliStart + 1"
definition sCaliLayout :: int where [enum_defs]: "sCaliLayout = sCaliSens + 1"

definition modeToggles :: "int list" where
  "modeToggles = [sIRTest, sCaliProfile, sCaliStart, sCaliSens, sCaliLayout]"

text \<open>Test signals from app\<close>

definition sTestSolenoid :: int where [enum_defs]: "sTestSolenoid = 15"
definition sTestRumble :: int where [enum_defs]: "sTestRumble = sTestSolenoid + 1"
definition sTestLEDR :: int where [enum_defs]: "sTestLEDR = sTestRumble + 1"
definition sTestLEDG :: int where [enum_defs]: "sTestLEDG = sTestLEDR + 1"
definition sTestLEDB :: int where [enum_defs]: "sTestLEDB = sTestLEDG + 1"

definition testSignals :: "int list" where
  "testSignals = [sTestSolenoid, sTestRumble, sTestLEDR, sTestLEDG, sTestLEDB]"

text \<open>Error types from board (with sError)\<close>

definition sErrCam :: int where [enum_defs]: "sErrCam = 0x80"
definition sErrPeriphGeneric :: int where [enum_defs]: "sErrPeriphGeneric = sErrCam + 1"

definition errorTypes :: "int list" where
  "errorTypes = [sErrCam, sErrPeriphGeneric]"

text \<open>Status updates from board\<close>

definition sBtnPressed :: int where [enum_defs]: "sBtnPressed = 0x90"
definition sBtnReleased :: int where [enum_defs]: "sBtnReleased = sBtnPressed + 1"
definition sAnalogPosUpd :: int where [enum_defs]: "sAnalogPosUpd = sBtnReleased + 1"
definition sTemperatureUpd :: int where [enum_defs]: "sTemperatureUpd = sAnalogPosUpd + 1"
definition sCaliStageUpd :: int where [enum_defs]: "sCaliStageUpd = sTemperatureUpd + 1"
definition sCaliInfoUpd :: int where [enum_defs]: "sCaliInfoUpd = sCaliStageUpd + 1"
definition sTestCoords :: int where [enum_defs]: "sTestCoords = sCaliInfoUpd + 1"
definition sCurrentProf :: int where [enum_defs]: "sCurrentProf = sTestCoords + 1"

definition statusUpdates :: "int list" where
  "statusUpdates =
    [sBtnPressed, sBtnReleased, sAnalogPosUpd, sTemperatureUpd, sCaliStageUpd, sCaliInfoUpd,
     sTestCoords, sCurrentProf]"

text \<open>Push settings to board\<close>

definition sCommitStart :: int where [enum_defs]: "sCommitStart = 0xAA"
definition sCommitToggles :: int where [enum_defs]: "sCommitToggles = sCommitStart + 1"
definition sCommitPins :: int where [enum_defs]: "sCommitPins = sCommitToggles + 1"
definition sCommitSettings :: int where [enum_defs]: "sCommitSettings = sCommitPins + 1"
definition sCommitProfile :: int where [enum_defs]: "sCommitProfile = sCommitSettings + 1"
definition sCommitID :: int where [enum_defs]: "sCommitID = sCommitProfile + 1"
definition sCommitPeriphs :: int where [enum_defs]: "sCommitPeriphs = sCommitID + 1"

definition pushSettings :: "int list" where
  "pushSettings =
    [sCommitStart, sCommitToggles, sCommitPins, sCommitSettings, sCommitProfile, sCommitID,
     sCommitPeriphs]"

text \<open>Grab settings from board\<close>

definition sGetPins :: int where [enum_defs]: "sGetPins = 0xC8"
definition sGetToggles :: int where [enum_defs]: "sGetToggles = sGetPins + 1"
definition sGetSettings :: int where [enum_defs]: "sGetSettings = sGetToggles + 1"
definition sGetProfile :: int where [enum_defs]: "sGetProfile = sGetSettings + 1"
definition sGetPeriphs :: int where [enum_defs]: "sGetPeriphs = sGetProfile + 1"

definition grabSettings :: "int list" where
  "grabSettings = [sGetPins, sGetToggles, sGetSettings, sGetProfile, sGetPeriphs]"

text \<open>The four codes that close the enumeration, declared after the last headed block\<close>

definition sError :: int where [enum_defs]: "sError = 0xFA"
definition sSave :: int where [enum_defs]: "sSave = 0xFC"
definition sClearFlash :: int where [enum_defs]: "sClearFlash = 0xFD"
definition serialTerminator :: int where [enum_defs]: "serialTerminator = 0xFE"

definition closingCodes :: "int list" where
  "closingCodes = [sError, sSave, sClearFlash, serialTerminator]"

text \<open>All enumerators of \<open>serialCmdTypes_e\<close> in declaration order.\<close>

definition serialCmdTypes_e :: "int list" where
  "serialCmdTypes_e =
    dockingCommands @ modeToggles @ testSignals @ errorTypes @ statusUpdates @
    pushSettings @ grabSettings @ closingCodes"

subsection \<open>Default pin mappings: \<open>boardsPresetsMap\<close>\<close>

text \<open>
  A \<open>std::unordered_map<std::string, std::vector<int>>\<close> built from an initialiser list:
  the list of its (key, value) entries in source order. The keys of the list are pairwise
  distinct, so the container holds exactly these entries and \<open>map_of\<close> is its lookup
  (\<open>find\<close>): \<open>None\<close> where the container has no element with that key. Index
  \<open>i\<close> of a vector is RP2040 GPIO \<open>i\<close>; the value is a \<open>boardInputs_e\<close> enumerator.
\<close>

definition boardsPresetsMap :: "(string \<times> int list) list" where
  "boardsPresetsMap =
    [(''rpipico'',
      [btnGunA, btnGunB, btnGunC, btnStart, btnSelect,
       btnHome, btnGunUp, btnGunDown, btnGunLeft, btnGunRight,
       ledR, ledG, ledB, btnPump, btnPedal,
       btnTrigger, solenoidPin, rumblePin, periphSDA, periphSCL,
       camSDA, camSCL, btnUnmapped, unavailable, unavailable,
       unavailable, btnUnmapped, btnUnmapped, tempPin, unavailable]),
     (''rpipicow'',
      [btnGunA, btnGunB, btnGunC, btnStart, btnSelect,
       btnHome, btnGunUp, btnGunDown, btnGunLeft, btnGunRight,
       ledR, ledG, ledB, btnPump, btnPedal,
       btnTrigger, solenoidPin, rumblePin, periphSDA, periphSCL,
       camSDA, camSCL, btnUnmapped, unavailable, unavailable,
       unavailable, btnUnmapped, btnUnmapped, tempPin, unavailable]),
     (''adafruitItsyRP2040'',
      [btnUnmapped, btnUnmapped, camSDA, camSCL, btnPedal,
       btnUnmapped, btnTrigger, btnGunDown, btnGunLeft, btnGunUp,
       btnGunRight, btnGunC, btnUnmapped, unavailable, unavailable,
       unavailable, unavailable, unavailable, btnUnmapped, btnUnmapped,
       btnUnmapped, unavailable, unavailable, unavailable, rumblePin,
       solenoidPin, btnGunB, btnGunA, btnStart, btnSelect]),
     (''adafruitKB2040'',
      [btnUnmapped, btnUnmapped, camSDA, camSCL, btnGunB,
       rumblePin, btnGunC, solenoidPin, btnSelect, btnStart,
       btnGunRight, unavailable, unavailable, unavailable, unavailable,
       unavailable, unavailable, unavailable, btnGunUp, btnGunLeft,
       btnGunDown, unavailable, unavailable, unavailable, unavailable,
       unavailable, tempPin, btnHome, btnTrigger, btnGunA]),
     (''arduinoNanoRP2040'',
      [btnTrigger, btnPedal, unavailable, unavailable, btnGunA,
       btnGunC, btnUnmapped, btnGunB, unavailable, unavailable,
       unavailable, unavailable, camSDA, camSCL, unavailable,
       btnUnmapped, btnUnmapped, btnUnmapped, btnUnmapped, btnUnmapped,
       btnUnmapped, btnUnmapped, unavailable, unavailable, unavailable,
       btnUnmapped, btnUnmapped, btnUnmapped, tempPin, btnUnmapped]),
     (''waveshareZero'',
      [btnTrigger, btnGunA, btnGunB, btnGunC, btnStart,
       btnSelect, btnUnmapped, btnUnmapped, btnUnmapped, btnUnmapped,
       btnUnmapped, btnUnmapped, btnUnmapped, btnUnmapped, camSDA,
       camSCL, unavailable, btnUnmapped, btnUnmapped, btnUnmapped,
       btnUnmapped, btnUnmapped, btnUnmapped, btnUnmapped, btnUnmapped,
       btnUnmapped, btnUnmapped, btnUnmapped, btnUnmapped, tempPin])]"

subsection \<open>Tables of the desktop application (under \<open>OF_APP\<close>)\<close>

text \<open>
  \<open>valuesNameList\<close>: "Used by pinBoxes, matching boardInputs_e (except "unavailable")".
\<close>

definition valuesNameList :: "string list" where
  "valuesNameList =
    [''Unmapped'',
     ''Trigger'',
     ''Button A'',
     ''Button B'',
     ''Button C'',
     ''Start'',
     ''Select'',
     ''D-Pad Up'',
     ''D-Pad Down'',
     ''D-Pad Left'',
     ''D-Pad Right'',
     ''Pedal'',
     ''Alt Pedal'',
     ''Pump Action'',
     ''Home Button'',
     ''Rumble Signal'',
     ''Solenoid Signal'',
     ''Rumble Switch'',
     ''Solenoid Switch'',
     ''Autofire Switch'',
     ''External NeoPixel'',
     ''RGB LED Red'',
     ''RGB LED Green'',
     ''RGB LED Blue'',
     ''Camera SDA'',
     ''Camera SCL'',
     ''Peripherals SDA'',
     ''Peripherals SCL'',
     ''Battery Sensor (Unused)'',
     ''Analog Stick X'',
     ''Analog Stick Y'',
     ''Temp Sensor'',
     ''Wii Cam Clock'']"

definition boardNames :: "(string \<times> string) list" where
  "boardNames =
    [(''rpipico'', ''Raspberry Pi Pico (RP2040)''),
     (''rpipicow'', ''Raspberry Pi Pico W (RP2040)''),
     (''adafruitItsyRP2040'', ''Adafruit ItsyBitsy RP2040''),
     (''adafruitKB2040'', ''Adafruit Keeboar KB2040''),
     (''arduinoNanoRP2040'', ''Arduino Nano Connect RP2040''),
     (''waveshareZero'', ''Waveshare Zero RP2040''),
     (''generic'', ''Unknown Board'')]"

text \<open>\<open>boardBoxPositions_e\<close>\<close>

definition posNothing :: int where [enum_defs]: "posNothing = 0"
definition posLeft :: int where [enum_defs]: "posLeft = 512"
definition posRight :: int where [enum_defs]: "posRight = 1024"
definition posMiddle :: int where [enum_defs]: "posMiddle = 2048"

definition boardBoxPositions_e :: "int list" where
  "boardBoxPositions_e = [posNothing, posLeft, posRight, posMiddle]"

text \<open>
  \<open>boardsBoxPositions\<close>: a \<open>std::unordered_map<std::string, std::vector<unsigned int>>\<close>.
  Each initialiser is an \<open>int\<close> constant expression (a slot literal plus an enumerator, or
  \<open>posNothing\<close> alone) that is converted to \<open>unsigned int\<close>, a 32-bit word, when the
  vector is built. Source comment: each pin should be a combination of the grid layout slot
  it should be in, added by the grid it should belong to; unexposed pins should use only
  \<open>posNothing\<close> (0).
\<close>

type_synonym uint = "32 word"

definition boardsBoxPositions :: "(string \<times> uint list) list" where
  "boardsBoxPositions =
    [(''rpipico'', map word_of_int
      [1 + posLeft, 2 + posLeft, 4 + posLeft, 5 + posLeft, 6 + posLeft,
       7 + posLeft, 9 + posLeft, 10 + posLeft, 11 + posLeft, 12 + posLeft,
       14 + posLeft, 15 + posLeft, 16 + posLeft, 17 + posLeft, 19 + posLeft,
       20 + posLeft, 20 + posRight, 19 + posRight, 17 + posRight, 16 + posRight,
       15 + posRight, 14 + posRight, 12 + posRight, posNothing, posNothing,
       posNothing, 10 + posRight, 9 + posRight, 7 + posRight, posNothing]),
     (''rpipicow'', map word_of_int
      [1 + posLeft, 2 + posLeft, 4 + posLeft, 5 + posLeft, 6 + posLeft,
       7 + posLeft, 9 + posLeft, 10 + posLeft, 11 + posLeft, 12 + posLeft,
       14 + posLeft, 15 + posLeft, 16 + posLeft, 17 + posLeft, 19 + posLeft,
       20 + posLeft, 20 + posRight, 19 + posRight, 17 + posRight, 16 + posRight,
       15 + posRight, 14 + posRight, 12 + posRight, posNothing, posNothing,
       posNothing, 10 + posRight, 9 + posRight, 7 + posRight, posNothing]),
     (''adafruitItsyRP2040'', map word_of_int
      [13 + posRight, 14 + posRight, 12 + posRight, 11 + posRight, 2 + posMiddle,
       1 + posMiddle, 9 + posRight, 8 + posRight, 7 + posRight, 6 + posRight,
       5 + posRight, 4 + posRight, 14 + posLeft, posNothing, posNothing,
       posNothing, posNothing, posNothing, 11 + posLeft, 12 + posLeft,
       13 + posLeft, posNothing, posNothing, posNothing, 9 + posLeft,
       10 + posLeft, 5 + posLeft, 6 + posLeft, 7 + posLeft, 8 + posLeft]),
     (''adafruitKB2040'', map word_of_int
      [3 + posLeft, 4 + posLeft, 7 + posLeft, 8 + posLeft, 9 + posLeft,
       10 + posLeft, 11 + posLeft, 12 + posLeft, 13 + posLeft, 14 + posLeft,
       14 + posRight, posNothing, posNothing, posNothing, posNothing,
       posNothing, posNothing, posNothing, 11 + posRight, 13 + posRight,
       12 + posRight, posNothing, posNothing, posNothing, posNothing,
       posNothing, 10 + posRight, 9 + posRight, 8 + posRight, 7 + posRight]),
     (''arduinoNanoRP2040'', map word_of_int
      [18 + posRight, 17 + posRight, posNothing, posNothing, 4 + posRight,
       6 + posRight, 4 + posLeft, 5 + posRight, posNothing, posNothing,
       posNothing, posNothing, 11 + posLeft, 12 + posLeft, posNothing,
       13 + posRight, 12 + posRight, 11 + posRight, 10 + posRight, 9 + posRight,
       8 + posRight, 7 + posRight, posNothing, posNothing, posNothing,
       14 + posRight, 7 + posLeft, 8 + posLeft, 9 + posLeft, 10 + posLeft]),
     (''waveshareZero'', map word_of_int
      [2 + posRight, 3 + posRight, 4 + posRight, 5 + posRight, 6 + posRight,
       7 + posRight, 8 + posRight, 9 + posRight, 10 + posRight, 11 + posRight,
       3 + posMiddle, 2 + posMiddle, 11 + posLeft, 10 + posLeft, 9 + posLeft,
       8 + posLeft, posNothing, posNothing, posNothing, posNothing,
       posNothing, posNothing, posNothing, posNothing, posNothing,
       posNothing, 7 + posLeft, 6 + posLeft, 5 + posLeft, 4 + posLeft]),
     (''generic'', map word_of_int
      [1 + posLeft, 2 + posLeft, 3 + posLeft, 4 + posLeft, 5 + posLeft,
       6 + posLeft, 7 + posLeft, 8 + posLeft, 9 + posLeft, 10 + posLeft,
       11 + posLeft, 12 + posLeft, 13 + posLeft, 14 + posLeft, 15 + posLeft,
       16 + posLeft, 16 + posRight, 15 + posRight, 14 + posRight, 13 + posRight,
       12 + posRight, 11 + posRight, 10 + posRight, 9 + posRight, 8 + posRight,
       7 + posRight, 6 + posRight, 5 + posRight, 4 + posRight, 3 + posRight])]"

text \<open>
  \<open>boardsAltPresets\<close>: a \<open>std::unordered_multimap\<close> from a board to a
  \<open>boardAltPresetsMap_t\<close> (a label and a pin vector); one board can have several entries.
\<close>

record boardAltPresetsMap_t =
  name :: string
  pin :: "int list"

definition boardsAltPresets :: "(string \<times> boardAltPresetsMap_t) list" where
  "boardsAltPresets =
    [(''rpipico'', \<lparr>name = ''Test'', pin =
      [btnPump, btnPedal, btnUnmapped, btnUnmapped, btnUnmapped,
       btnUnmapped, btnUnmapped, btnUnmapped, btnUnmapped, btnUnmapped,
       btnUnmapped, btnUnmapped, btnUnmapped, btnUnmapped, btnUnmapped,
       btnUnmapped, btnUnmapped, btnUnmapped, btnUnmapped, btnUnmapped,
       btnUnmapped, btnUnmapped, btnUnmapped, unavailable, unavailable,
       unavailable, btnUnmapped, btnUnmapped, btnUnmapped, unavailable]\<rparr>),
     (''rpipico'', \<lparr>name = ''Test 2'', pin =
      [btnGunA, btnTrigger, btnUnmapped, btnUnmapped, btnUnmapped,
       btnUnmapped, btnUnmapped, btnUnmapped, btnUnmapped, btnUnmapped,
       btnUnmapped, btnUnmapped, btnUnmapped, btnUnmapped, btnUnmapped,
       btnUnmapped, btnUnmapped, btnUnmapped, btnUnmapped, btnUnmapped,
       btnUnmapped, btnUnmapped, btnUnmapped, unavailable, unavailable,
       unavailable, btnUnmapped, btnUnmapped, btnUnmapped, unavailable]\<rparr>),
     (''adafruitItsyRP2040'', \<lparr>name = ''SAMCO 2.0'', pin =
      [btnUnmapped, btnUnmapped, camSDA, camSCL, btnPedal,
       btnUnmapped, btnTrigger, btnGunDown, btnGunLeft, btnGunUp,
       btnGunRight, btnHome, btnUnmapped, unavailable, unavailable,
       unavailable, unavailable, unavailable, btnUnmapped, btnUnmapped,
       btnUnmapped, unavailable, unavailable, unavailable, rumblePin,
       solenoidPin, btnGunB, btnGunA, btnStart, btnSelect]\<rparr>),
     (''adafruitItsyRP2040'', \<lparr>name = ''SAMCO 1.1'', pin =
      [btnUnmapped, btnUnmapped, camSDA, camSCL, btnUnmapped,
       btnUnmapped, btnGunA, btnGunB, rumblePin, btnHome,
       btnTrigger, btnUnmapped, btnUnmapped, unavailable, unavailable,
       unavailable, unavailable, unavailable, btnUnmapped, btnUnmapped,
       btnUnmapped, unavailable, unavailable, unavailable, btnUnmapped,
       btnUnmapped, btnUnmapped, btnPedal, btnUnmapped, btnUnmapped]\<rparr>)]"

section \<open>Operations the specification names\<close>

subsection \<open>Lookup in the tables\<close>

text \<open>The keys of an associative table, in source order.\<close>

definition keys :: "(string \<times> 'a) list \<Rightarrow> string list" where
  "keys tbl = map fst tbl"

text \<open>
  Reading \<open>valuesNameList\<close> at the index of a pin function: the application shifts the
  enumerator by one, since the table starts at \<open>btnUnmapped\<close> (-1). An index outside the
  array is undefined behaviour in C++, here \<open>None\<close>.
\<close>

definition valueName :: "int \<Rightarrow> string option" where
  "valueName f =
    (if 0 \<le> f + 1 \<and> f + 1 < int (length valuesNameList)
     then Some (valuesNameList ! nat (f + 1)) else None)"

subsection \<open>Layout position codec\<close>

text \<open>
  The packing the table \<open>boardsBoxPositions\<close> is written with: slot plus region constant,
  as an \<open>unsigned int\<close>.
\<close>

definition encode :: "int \<Rightarrow> int \<Rightarrow> uint" where
  "encode region slot = word_of_int (slot + region)"

text \<open>
  Modelled from the spec: the header has no decoder (the application reads the packed
  values elsewhere). The specification's decoder "recovers the region by locating which of
  the four region constants is the largest value not exceeding the packed integer, then
  recovers slot as the remainder".
\<close>

definition decode :: "uint \<Rightarrow> int \<times> int" where
  "decode v =
    (let region = Max (set (filter (\<lambda>c. c \<le> uint v) boardBoxPositions_e))
     in (region, uint v - region))"

subsection \<open>Partition of the serial command code space\<close>

datatype partition =
  Docking | ModeToggle | TestTrigger | ErrorCode | Status | Commit | Get | Control | Unassigned

text \<open>
  Modelled from the spec: the header declares the codes only, it has no classification
  function. The specification's table of ranges: 1-4 docking handshake, 5-9 mode toggles,
  15-19 hardware test triggers, 0x80-0x8F error codes, 0x90-0x9F status updates,
  0xAA-0xB5 commit writes, 0xC8-0xD2 get reads, and the single values 0xFA, 0xFC, 0xFD, 0xFE
  (generic error, save, clear-flash, terminate-session); a byte outside all ranges is
  unassigned.
\<close>

definition classify :: "int \<Rightarrow> partition" where
  "classify b =
    (if 1 \<le> b \<and> b \<le> 4 then Docking
     else if 5 \<le> b \<and> b \<le> 9 then ModeToggle
     else if 15 \<le> b \<and> b \<le> 19 then TestTrigger
     else if 0x80 \<le> b \<and> b \<le> 0x8F then ErrorCode
     else if 0x90 \<le> b \<and> b \<le> 0x9F then Status
     else if 0xAA \<le> b \<and> b \<le> 0xB5 then Commit
     else if 0xC8 \<le> b \<and> b \<le> 0xD2 then Get
     else if b = 0xFA \<or> b = 0xFC \<or> b = 0xFD \<or> b = 0xFE then Control
     else Unassigned)"

text \<open>
  The purpose group under which the source declares each block of codes: the block's
  comment line, read as the specification's group of that purpose.
\<close>

definition declaredGroups :: "(partition \<times> int list) list" where
  "declaredGroups =
    [(Docking, dockingCommands), (ModeToggle, modeToggles), (TestTrigger, testSignals),
     (ErrorCode, errorTypes), (Status, statusUpdates), (Commit, pushSettings),
     (Get, grabSettings), (Control, closingCodes)]"

section \<open>Auxiliary facts\<close>

lemma count_list_filter_distinct:
  "distinct (filter P xs) \<Longrightarrow> P f \<Longrightarrow> count_list xs f \<le> 1"
  by (induction xs) (auto simp: count_list_0_iff split: if_splits)

lemma decode_cases:
  "decode v =
    (if 2048 \<le> uint v then (2048, uint v - 2048)
     else if 1024 \<le> uint v then (1024, uint v - 1024)
     else if 512 \<le> uint v then (512, uint v - 512)
     else (0, uint v))"
  by (simp add: decode_def boardBoxPositions_e_def enum_defs Let_def)

lemma regions: "r \<in> set boardBoxPositions_e \<longleftrightarrow> r = 0 \<or> r = 512 \<or> r = 1024 \<or> r = 2048"
  by (simp add: boardBoxPositions_e_def enum_defs)

lemma uint_encode:
  assumes "r \<in> set boardBoxPositions_e" "0 \<le> slot" "slot < 512"
  shows "uint (encode r slot) = r + slot"
proof -
  have bounds: "0 \<le> slot + r" "slot + r < 2 ^ 32"
    using assms by (auto simp: regions)
  have "uint (encode r slot) = take_bit LENGTH(32) (slot + r)"
    unfolding encode_def by (rule uint_word_of_int_eq)
  also have "\<dots> = take_bit 32 (slot + r)"
    by simp
  also have "\<dots> = slot + r"
    using bounds by (rule take_bit_int_eq_self)
  finally show ?thesis
    by (simp add: add.commute)
qed


lemma in_region_iff:
  "(\<exists>slot. 0 \<le> slot \<and> slot < 512 \<and> u = r + slot) \<longleftrightarrow> (r \<le> u \<and> u < r + (512::int))"
proof
  assume "\<exists>slot. 0 \<le> slot \<and> slot < 512 \<and> u = r + slot"
  then show "r \<le> u \<and> u < r + 512" by auto
next
  assume "r \<le> u \<and> u < r + 512"
  then have "0 \<le> u - r \<and> u - r < 512 \<and> u = r + (u - r)" by simp
  then show "\<exists>slot. 0 \<le> slot \<and> slot < 512 \<and> u = r + slot" by blast
qed

lemma decode_slot_bound:
  assumes "snd (decode v) < 512"
  shows "uint v < 512 \<or> (512 \<le> uint v \<and> uint v < 1024) \<or>
         (1024 \<le> uint v \<and> uint v < 1536) \<or> (2048 \<le> uint v \<and> uint v < 2560)"
proof (cases "2048 \<le> uint v")
  case True
  with assms show ?thesis by (simp add: decode_cases)
next
  case f1: False
  show ?thesis
  proof (cases "1024 \<le> uint v")
    case True
    with f1 assms show ?thesis by (simp add: decode_cases)
  next
    case f2: False
    then show ?thesis by (cases "512 \<le> uint v") simp_all
  qed
qed

lemma unique_region:
  assumes "snd (decode v) < 512"
  shows "\<exists>!r. r \<in> set boardBoxPositions_e \<and> (\<exists>slot. 0 \<le> slot \<and> slot < 512 \<and> uint v = r + slot)"
proof -
  define u where "u = uint v"
  have nn: "0 \<le> u" by (simp add: u_def)
  from decode_slot_bound[OF assms]
  consider "u < 512" | "512 \<le> u \<and> u < 1024" | "1024 \<le> u \<and> u < 1536" | "2048 \<le> u \<and> u < 2560"
    unfolding u_def by blast
  then have "\<exists>!r. (r = 0 \<or> r = 512 \<or> r = 1024 \<or> r = 2048) \<and> r \<le> u \<and> u < r + 512"
  proof cases
    case 1 with nn show ?thesis by (intro ex1I[of _ 0]) auto
  next
    case 2 then show ?thesis by (intro ex1I[of _ 512]) auto
  next
    case 3 then show ?thesis by (intro ex1I[of _ 1024]) auto
  next
    case 4 then show ?thesis by (intro ex1I[of _ 2048]) auto
  qed
  then show ?thesis
    unfolding regions in_region_iff u_def[symmetric] .
qed

section \<open>The claims\<close>

subsection \<open>Serial command codes\<close>

text \<open>
  Claim C3. All serial command code values defined in \<open>serialCmdTypes_e\<close> are pairwise
  distinct, and none of them lies in the printable-ASCII range 33 to 127 inclusive.
\<close>
theorem serialCmdTypes_distinct_unprintable:
  "distinct serialCmdTypes_e \<and> (\<forall>c \<in> set serialCmdTypes_e. \<not> (33 \<le> c \<and> c \<le> 127))"
proof -
  have d: "distinct serialCmdTypes_e"
    by code_simp
  have "list_all (\<lambda>c. \<not> (33 \<le> c \<and> c \<le> 127)) serialCmdTypes_e"
    by code_simp
  then have "\<forall>c \<in> set serialCmdTypes_e. \<not> (33 \<le> c \<and> c \<le> 127)"
    by (simp only: list_all_iff)
  with d show ?thesis by (rule conjI)
qed

theorem serialCmdTypes_distinct_unprintable_witness:
  "sErrCam \<in> set serialCmdTypes_e \<and> \<not> (33 \<le> sErrCam \<and> sErrCam \<le> 127) \<and> sErrCam = 128"
proof -
  have m: "sErrCam \<in> set serialCmdTypes_e" by code_simp
  have v: "sErrCam = 128" by code_simp
  from serialCmdTypes_distinct_unprintable m have "\<not> (33 \<le> sErrCam \<and> sErrCam \<le> 127)"
    by blast
  with m v show ?thesis by simp
qed

text \<open>
  Claim C6. The classification by the documented byte ranges assigns every code of
  \<open>serialCmdTypes_e\<close> to the purpose group under which the source declares it (the
  declared groups together are all of \<open>serialCmdTypes_e\<close>); in particular byte 0xAA, which
  is \<open>sCommitStart\<close>, classifies as commit and byte 0xC8, which is \<open>sGetPins\<close>,
  classifies as get.
\<close>
theorem classify_declared_group:
  "(\<forall>(g, cs) \<in> set declaredGroups. \<forall>c \<in> set cs. classify c = g) \<and>
   concat (map snd declaredGroups) = serialCmdTypes_e \<and>
   sCommitStart = 0xAA \<and> classify 0xAA = Commit \<and>
   sGetPins = 0xC8 \<and> classify 0xC8 = Get"
proof -
  have "list_all (\<lambda>(g, cs). list_all (\<lambda>c. classify c = g) cs) declaredGroups"
    by code_simp
  then have 1: "\<forall>(g, cs) \<in> set declaredGroups. \<forall>c \<in> set cs. classify c = g"
    by (simp only: list_all_iff)
  have 2: "concat (map snd declaredGroups) = serialCmdTypes_e"
    by (simp add: declaredGroups_def serialCmdTypes_e_def)
  have 3: "sCommitStart = 0xAA" "sGetPins = 0xC8"
    by (simp_all add: sCommitStart_def sGetPins_def)
  have 4: "classify 0xAA = Commit" "classify 0xC8 = Get"
    by (simp_all add: classify_def)
  from 1 2 3 4 show ?thesis by blast
qed

theorem classify_declared_group_witness:
  "(Status, statusUpdates) \<in> set declaredGroups \<and> sTemperatureUpd \<in> set statusUpdates \<and>
   classify sTemperatureUpd = Status \<and> sTemperatureUpd = 0x93"
proof -
  have a: "(Status, statusUpdates) \<in> set declaredGroups" by (simp add: declaredGroups_def)
  have b: "sTemperatureUpd \<in> set statusUpdates" by (simp add: statusUpdates_def)
  from classify_declared_group a b have "classify sTemperatureUpd = Status" by fast
  moreover have "sTemperatureUpd = 0x93" by code_simp
  ultimately show ?thesis using a b by simp
qed


subsection \<open>Enumerations\<close>

text \<open>
  Claim C7. The enumerations \<open>boardInputs_e\<close>, \<open>profSyncTypes_e\<close>,
  \<open>settingsTypes_e\<close> and \<open>boolTypes_e\<close> each assign the consecutive values
  0, 1, 2, ... up to their count marker (\<open>boardInputsCount\<close>, \<open>profDataTypes\<close>,
  \<open>settingsTypesCount\<close>, \<open>boolTypesCount\<close>), in declaration order, without gap or
  duplicate: the enumerators from the first real one to the marker are the list
  \<open>[0..marker]\<close>. The only enumerators outside that range are the two sentinels in front of
  \<open>boardInputs_e\<close> and \<open>profName\<close> (0xFA) behind the marker of \<open>profSyncTypes_e\<close>.
  The sentinels are ordered \<open>unavailable\<close> (-2) < \<open>btnUnmapped\<close> (-1) <
  \<open>btnTrigger\<close> (0).
\<close>
theorem enumerations_consecutive:
  "boardInputs_e = [unavailable, btnUnmapped] @ [0..boardInputsCount] \<and>
   boolTypes_e = [0..boolTypesCount] \<and>
   settingsTypes_e = [0..settingsTypesCount] \<and>
   profSyncTypes_e = [0..profDataTypes] @ [profName] \<and>
   unavailable = -2 \<and> btnUnmapped = -1 \<and> btnTrigger = 0 \<and>
   unavailable < btnUnmapped \<and> btnUnmapped < btnTrigger"
proof -
  have 1: "boardInputs_e = [unavailable, btnUnmapped] @ [0..boardInputsCount]" by code_simp
  have 2: "boolTypes_e = [0..boolTypesCount]" by code_simp
  have 3: "settingsTypes_e = [0..settingsTypesCount]" by code_simp
  have 4: "profSyncTypes_e = [0..profDataTypes] @ [profName]" by code_simp
  have 5: "unavailable = -2 \<and> btnUnmapped = -1 \<and> btnTrigger = 0 \<and>
           unavailable < btnUnmapped \<and> btnUnmapped < btnTrigger"
    by (simp add: unavailable_def btnUnmapped_def btnTrigger_def)
  from 1 2 3 4 5 show ?thesis by blast
qed

subsection \<open>Pin mappings\<close>

text \<open>
  Claim C5. Every default mapping in \<open>boardsPresetsMap\<close>, every alternate mapping in
  \<open>boardsAltPresets\<close> and every layout vector in \<open>boardsBoxPositions\<close> has length 30,
  the GPIO count of the supported RP2040 boards.
\<close>
theorem mapping_lengths:
  "(\<forall>(board, m) \<in> set boardsPresetsMap. length m = 30) \<and>
   (\<forall>(board, alt) \<in> set boardsAltPresets. length (pin alt) = 30) \<and>
   (\<forall>(board, vs) \<in> set boardsBoxPositions. length vs = 30)"
proof -
  have 1: "list_all (\<lambda>(board, m). length m = 30) boardsPresetsMap" by code_simp
  have 2: "list_all (\<lambda>(board, alt). length (pin alt) = 30) boardsAltPresets" by code_simp
  have 3: "list_all (\<lambda>(board, vs). length vs = 30) boardsBoxPositions" by code_simp
  from 1 2 3 show ?thesis by (simp only: list_all_iff)
qed

theorem mapping_lengths_witness:
  "hd boardsPresetsMap \<in> set boardsPresetsMap \<and> fst (hd boardsPresetsMap) = ''rpipico'' \<and>
   length (snd (hd boardsPresetsMap)) = 30 \<and>
   last boardsAltPresets \<in> set boardsAltPresets \<and> name (snd (last boardsAltPresets)) = ''SAMCO 1.1'' \<and>
   length (pin (snd (last boardsAltPresets))) = 30 \<and>
   last boardsBoxPositions \<in> set boardsBoxPositions \<and> fst (last boardsBoxPositions) = ''generic'' \<and>
   length (snd (last boardsBoxPositions)) = 30"
proof -
  have a: "hd boardsPresetsMap \<in> set boardsPresetsMap" by (simp add: boardsPresetsMap_def)
  have b: "last boardsAltPresets \<in> set boardsAltPresets" by (simp add: boardsAltPresets_def)
  have c: "last boardsBoxPositions \<in> set boardsBoxPositions" by (simp add: boardsBoxPositions_def)
  have n: "fst (hd boardsPresetsMap) = ''rpipico''" "name (snd (last boardsAltPresets)) = ''SAMCO 1.1''"
    "fst (last boardsBoxPositions) = ''generic''"
    by (simp_all add: boardsPresetsMap_def boardsAltPresets_def boardsBoxPositions_def)
  from mapping_lengths a b c
  have "length (snd (hd boardsPresetsMap)) = 30 \<and> length (pin (snd (last boardsAltPresets))) = 30 \<and>
        length (snd (last boardsBoxPositions)) = 30"
    by (auto simp: split_beta)
  with a b c n show ?thesis by simp
qed

text \<open>
  Claim C4. In every pin mapping of the registry (every default mapping in
  \<open>boardsPresetsMap\<close> and every alternate mapping in \<open>boardsAltPresets\<close>) each
  non-sentinel pin function (a value \<open>\<ge> 0\<close>, so neither \<open>unavailable\<close> nor
  \<open>btnUnmapped\<close>) occurs at most once among the entries. The sentinels are not
  restricted: the witness shows \<open>unavailable\<close> four times in the mapping of rpipico.
\<close>
theorem pin_function_at_most_once:
  "(\<forall>(board, m) \<in> set boardsPresetsMap. \<forall>f. 0 \<le> f \<longrightarrow> count_list m f \<le> 1) \<and>
   (\<forall>(board, alt) \<in> set boardsAltPresets. \<forall>f. 0 \<le> f \<longrightarrow> count_list (pin alt) f \<le> 1)"
proof -
  have 1: "list_all (\<lambda>(board, m). distinct (filter ((\<le>) 0) m)) boardsPresetsMap" by code_simp
  have 2: "list_all (\<lambda>(board, alt). distinct (filter ((\<le>) 0) (pin alt))) boardsAltPresets" by code_simp
  have "count_list m f \<le> 1" if "(board, m) \<in> set boardsPresetsMap" "0 \<le> f" for board m f
  proof -
    from 1 that(1) have "distinct (filter ((\<le>) 0) m)"
      by (auto simp: list_all_iff)
    then show ?thesis using that(2) by (rule count_list_filter_distinct)
  qed
  then have "\<forall>(board, m) \<in> set boardsPresetsMap. \<forall>f. 0 \<le> f \<longrightarrow> count_list m f \<le> 1"
    by blast
  moreover
  have "count_list (pin alt) f \<le> 1" if "(board, alt) \<in> set boardsAltPresets" "0 \<le> f" for board alt f
  proof -
    from 2 that(1) have "distinct (filter ((\<le>) 0) (pin alt))"
      by (auto simp: list_all_iff)
    then show ?thesis using that(2) by (rule count_list_filter_distinct)
  qed
  then have "\<forall>(board, alt) \<in> set boardsAltPresets. \<forall>f. 0 \<le> f \<longrightarrow> count_list (pin alt) f \<le> 1"
    by blast
  ultimately show ?thesis by (rule conjI)
qed

theorem pin_function_at_most_once_witness:
  "hd boardsPresetsMap \<in> set boardsPresetsMap \<and> 0 \<le> btnGunA \<and>
   count_list (snd (hd boardsPresetsMap)) btnGunA \<le> 1 \<and>
   count_list (snd (hd boardsPresetsMap)) btnGunA = 1 \<and>
   count_list (snd (hd boardsPresetsMap)) unavailable = 4"
proof -
  have a: "hd boardsPresetsMap \<in> set boardsPresetsMap" by (simp add: boardsPresetsMap_def)
  have b: "0 \<le> btnGunA" by code_simp
  from pin_function_at_most_once a b have "count_list (snd (hd boardsPresetsMap)) btnGunA \<le> 1"
    by (auto simp: split_beta)
  moreover have "count_list (snd (hd boardsPresetsMap)) btnGunA = 1" by code_simp
  moreover have "count_list (snd (hd boardsPresetsMap)) unavailable = 4" by code_simp
  ultimately show ?thesis using a b by simp
qed

text \<open>
  Claim C8. For every board that has both a default mapping in \<open>boardsPresetsMap\<close> and
  a layout in \<open>boardsBoxPositions\<close>, at every GPIO index where the default mapping is
  \<open>unavailable\<close> the layout entry at that index is \<open>posNothing\<close> (0).
\<close>
theorem unavailable_pins_have_no_position:
  assumes "map_of boardsPresetsMap board = Some m"
    and "map_of boardsBoxPositions board = Some vs"
    and "i < length m"
    and "m ! i = unavailable"
  shows "i < length vs \<and> vs ! i = word_of_int posNothing \<and> vs ! i = 0"
proof -
  have chk: "list_all (\<lambda>(b, m). case map_of boardsBoxPositions b of None \<Rightarrow> True
      | Some vs \<Rightarrow> length vs = length m \<and>
          list_all (\<lambda>(f, v). f \<noteq> unavailable \<or> v = 0) (zip m vs)) boardsPresetsMap"
    by code_simp
  from assms(1) have mem: "(board, m) \<in> set boardsPresetsMap"
    by (rule map_of_SomeD)
  from chk have "\<forall>e \<in> set boardsPresetsMap. case map_of boardsBoxPositions (fst e) of
      None \<Rightarrow> True
    | Some vs \<Rightarrow> length vs = length (snd e) \<and>
        list_all (\<lambda>(f, v). f \<noteq> unavailable \<or> v = 0) (zip (snd e) vs)"
    by (simp add: list_all_iff split_beta)
  from bspec[OF this mem] assms(2)
  have len: "length vs = length m"
    and la: "list_all (\<lambda>(f, v). f \<noteq> unavailable \<or> v = 0) (zip m vs)"
    by simp_all
  from la have all: "\<forall>p \<in> set (zip m vs). fst p \<noteq> unavailable \<or> snd p = 0"
    by (simp add: list_all_iff split_beta)
  from len assms(3) have i: "i < length vs" by simp
  with assms(3) have "(m ! i, vs ! i) \<in> set (zip m vs)"
    by (auto simp: set_zip)
  from bspec[OF all this] assms(4) have "vs ! i = 0" by simp
  with i show ?thesis by (simp add: posNothing_def)
qed

theorem unavailable_pins_have_no_position_witness:
  "map_of boardsPresetsMap ''waveshareZero'' = Some (snd (last boardsPresetsMap)) \<and>
   map_of boardsBoxPositions ''waveshareZero'' = Some (snd (boardsBoxPositions ! 5)) \<and>
   16 < length (snd (last boardsPresetsMap)) \<and>
   snd (last boardsPresetsMap) ! 16 = unavailable \<and>
   16 < length (snd (boardsBoxPositions ! 5)) \<and>
   snd (boardsBoxPositions ! 5) ! 16 = 0"
proof -
  have a: "map_of boardsPresetsMap ''waveshareZero'' = Some (snd (last boardsPresetsMap))"
    by (simp add: boardsPresetsMap_def)
  have b: "map_of boardsBoxPositions ''waveshareZero'' = Some (snd (boardsBoxPositions ! 5))"
    by (simp add: boardsBoxPositions_def)
  have c: "16 < length (snd (last boardsPresetsMap))"
    by (simp add: boardsPresetsMap_def)
  have d: "snd (last boardsPresetsMap) ! 16 = unavailable"
    by (simp add: boardsPresetsMap_def)
  from unavailable_pins_have_no_position[OF a b c d]
  have "16 < length (snd (boardsBoxPositions ! 5))" and "snd (boardsBoxPositions ! 5) ! 16 = 0"
    by blast+
  with a b c d show ?thesis
    by blast
qed


subsection \<open>Layout positions\<close>

text \<open>
  Claim C2. For every region constant among \<open>posNothing\<close>, \<open>posLeft\<close>, \<open>posRight\<close>,
  \<open>posMiddle\<close> (0, 512, 1024, 2048) and every slot with \<open>0 \<le> slot < 512\<close>, decoding the
  encoded layout position gives back the pair of region and slot; in particular
  \<open>encode posLeft 7 = 519\<close> and \<open>decode 519 = (posLeft, 7)\<close>.
\<close>
theorem decode_encode_roundtrip:
  "(r \<in> set boardBoxPositions_e \<and> 0 \<le> slot \<and> slot < 512 \<longrightarrow> decode (encode r slot) = (r, slot)) \<and>
   boardBoxPositions_e = [0, 512, 1024, 2048] \<and>
   posLeft = 512 \<and> encode posLeft 7 = 519 \<and> decode 519 = (posLeft, 7)"
proof -
  have rt: "decode (encode r slot) = (r, slot)"
    if a: "r \<in> set boardBoxPositions_e" "0 \<le> slot" "slot < 512"
  proof -
    have u: "uint (encode r slot) = r + slot" by (rule uint_encode[OF a])
    from a(1) consider "r = 0" | "r = 512" | "r = 1024" | "r = 2048"
      unfolding regions by blast
    then show ?thesis
    proof cases
      case 1 with a(2,3) show ?thesis unfolding decode_cases u by simp
    next
      case 2 with a(2,3) show ?thesis unfolding decode_cases u by simp
    next
      case 3 with a(2,3) show ?thesis unfolding decode_cases u by simp
    next
      case 4 with a(2,3) show ?thesis unfolding decode_cases u by simp
    qed
  qed
  have e1: "boardBoxPositions_e = [0, 512, 1024, 2048]"
    by (simp add: boardBoxPositions_e_def enum_defs)
  have e2: "posLeft = 512" by (simp add: posLeft_def)
  have e3: "encode posLeft 7 = 519" by (simp add: encode_def posLeft_def)
  have e4: "decode 519 = (posLeft, 7)" by (simp add: decode_cases posLeft_def)
  from rt e1 e2 e3 e4 show ?thesis by blast
qed

theorem decode_encode_roundtrip_witness:
  "posMiddle \<in> set boardBoxPositions_e \<and> (0::int) \<le> 511 \<and> (511::int) < 512 \<and>
   decode (encode posMiddle 511) = (posMiddle, 511) \<and> encode posMiddle 511 = 2559"
proof -
  have h: "posMiddle \<in> set boardBoxPositions_e \<and> (0::int) \<le> 511 \<and> (511::int) < 512"
    by (simp add: boardBoxPositions_e_def)
  with decode_encode_roundtrip[of posMiddle 511]
  have "decode (encode posMiddle 511) = (posMiddle, 511)" by blast
  moreover have "encode posMiddle 511 = 2559" by (simp add: encode_def posMiddle_def)
  ultimately show ?thesis using h by simp
qed


text \<open>
  Claim C9. Every packed value stored in \<open>boardsBoxPositions\<close>, for every board and every
  GPIO index, is region plus slot for exactly one region constant with
  \<open>0 \<le> slot < 512\<close>; and decoding it by the largest region constant not exceeding it
  leaves a remainder below 512.
\<close>
theorem layout_values_no_overflow:
  "\<forall>(board, vs) \<in> set boardsBoxPositions. \<forall>v \<in> set vs.
     (\<exists>!r. r \<in> set boardBoxPositions_e \<and> (\<exists>slot. 0 \<le> slot \<and> slot < 512 \<and> uint v = r + slot)) \<and>
     0 \<le> snd (decode v) \<and> snd (decode v) < 512 \<and> uint v = fst (decode v) + snd (decode v)"
proof -
  have chk: "list_all (\<lambda>(board, vs). list_all (\<lambda>v. snd (decode v) < 512) vs) boardsBoxPositions"
    by code_simp
  have "(\<exists>!r. r \<in> set boardBoxPositions_e \<and> (\<exists>slot. 0 \<le> slot \<and> slot < 512 \<and> uint v = r + slot)) \<and>
     0 \<le> snd (decode v) \<and> snd (decode v) < 512 \<and> uint v = fst (decode v) + snd (decode v)"
    if "(board, vs) \<in> set boardsBoxPositions" "v \<in> set vs" for board vs v
  proof -
    from chk that have b: "snd (decode v) < 512"
      by (auto simp: list_all_iff)
    have "0 \<le> snd (decode v)" "uint v = fst (decode v) + snd (decode v)"
      by (simp_all add: decode_cases)
    with b unique_region[OF b] show ?thesis by blast
  qed
  then show ?thesis by blast
qed

theorem layout_values_no_overflow_witness:
  "hd boardsBoxPositions \<in> set boardsBoxPositions \<and>
   hd (snd (hd boardsBoxPositions)) \<in> set (snd (hd boardsBoxPositions)) \<and>
   hd (snd (hd boardsBoxPositions)) = 513 \<and>
   decode (hd (snd (hd boardsBoxPositions))) = (posLeft, 1) \<and>
   snd (decode (hd (snd (hd boardsBoxPositions)))) < 512"
proof -
  have a: "hd boardsBoxPositions \<in> set boardsBoxPositions" by (simp add: boardsBoxPositions_def)
  have b: "hd (snd (hd boardsBoxPositions)) \<in> set (snd (hd boardsBoxPositions))"
    by (simp add: boardsBoxPositions_def)
  have c: "hd (snd (hd boardsBoxPositions)) = 513"
    by (simp add: boardsBoxPositions_def posLeft_def)
  have d: "decode 513 = (posLeft, 1)" by (simp add: decode_cases posLeft_def)
  from layout_values_no_overflow a b have "snd (decode (hd (snd (hd boardsBoxPositions)))) < 512"
    by (auto simp: split_beta)
  with a b c d show ?thesis by simp
qed

subsection \<open>Labels of the pin functions\<close>

text \<open>
  Claim C10. \<open>valuesNameList\<close> has \<open>boardInputsCount + 1 = 33\<close> entries: for every pin
  function \<open>f\<close> with \<open>btnUnmapped \<le> f < boardInputsCount\<close> the index \<open>f + 1\<close> is inside
  the table, and the label there is the one of that function, as the list of the
  enumerators from \<open>btnUnmapped\<close> to \<open>wiiClockGen\<close> with their labels shows. There is
  no label for \<open>unavailable\<close>, whose index is -1, nor for the count marker.
\<close>
theorem valuesNameList_covers_functions:
  "length valuesNameList = 33 \<and> int (length valuesNameList) = boardInputsCount + 1 \<and>
   (btnUnmapped \<le> f \<and> f < boardInputsCount \<longrightarrow>
      nat (f + 1) < length valuesNameList \<and>
      valueName f = Some (valuesNameList ! nat (f + 1))) \<and>
   valueName unavailable = None \<and> valueName boardInputsCount = None \<and>
   map (\<lambda>f. (f, valueName f)) (butlast (tl boardInputs_e)) =
     [(btnUnmapped, Some ''Unmapped''), (btnTrigger, Some ''Trigger''),
      (btnGunA, Some ''Button A''), (btnGunB, Some ''Button B''), (btnGunC, Some ''Button C''),
      (btnStart, Some ''Start''), (btnSelect, Some ''Select''),
      (btnGunUp, Some ''D-Pad Up''), (btnGunDown, Some ''D-Pad Down''),
      (btnGunLeft, Some ''D-Pad Left''), (btnGunRight, Some ''D-Pad Right''),
      (btnPedal, Some ''Pedal''), (btnPedal2, Some ''Alt Pedal''),
      (btnPump, Some ''Pump Action''), (btnHome, Some ''Home Button''),
      (rumblePin, Some ''Rumble Signal''), (solenoidPin, Some ''Solenoid Signal''),
      (rumbleSwitch, Some ''Rumble Switch''), (solenoidSwitch, Some ''Solenoid Switch''),
      (autofireSwitch, Some ''Autofire Switch''), (neoPixel, Some ''External NeoPixel''),
      (ledR, Some ''RGB LED Red''), (ledG, Some ''RGB LED Green''), (ledB, Some ''RGB LED Blue''),
      (camSDA, Some ''Camera SDA''), (camSCL, Some ''Camera SCL''),
      (periphSDA, Some ''Peripherals SDA''), (periphSCL, Some ''Peripherals SCL''),
      (battery, Some ''Battery Sensor (Unused)''),
      (analogX, Some ''Analog Stick X''), (analogY, Some ''Analog Stick Y''),
      (tempPin, Some ''Temp Sensor''), (wiiClockGen, Some ''Wii Cam Clock'')]"
proof -
  have len: "length valuesNameList = 33" by (simp add: valuesNameList_def)
  have cnt: "boardInputsCount = 32" by (simp add: enum_defs)
  have 1: "int (length valuesNameList) = boardInputsCount + 1"
    unfolding len cnt by simp
  have 2: "btnUnmapped \<le> f \<and> f < boardInputsCount \<longrightarrow>
      nat (f + 1) < length valuesNameList \<and> valueName f = Some (valuesNameList ! nat (f + 1))"
    unfolding valueName_def len cnt btnUnmapped_def by auto
  have 3: "valueName unavailable = None" "valueName boardInputsCount = None"
    unfolding valueName_def len cnt unavailable_def by simp_all
  have 4: "map (\<lambda>f. (f, valueName f)) (butlast (tl boardInputs_e)) =
     [(btnUnmapped, Some ''Unmapped''), (btnTrigger, Some ''Trigger''),
      (btnGunA, Some ''Button A''), (btnGunB, Some ''Button B''), (btnGunC, Some ''Button C''),
      (btnStart, Some ''Start''), (btnSelect, Some ''Select''),
      (btnGunUp, Some ''D-Pad Up''), (btnGunDown, Some ''D-Pad Down''),
      (btnGunLeft, Some ''D-Pad Left''), (btnGunRight, Some ''D-Pad Right''),
      (btnPedal, Some ''Pedal''), (btnPedal2, Some ''Alt Pedal''),
      (btnPump, Some ''Pump Action''), (btnHome, Some ''Home Button''),
      (rumblePin, Some ''Rumble Signal''), (solenoidPin, Some ''Solenoid Signal''),
      (rumbleSwitch, Some ''Rumble Switch''), (solenoidSwitch, Some ''Solenoid Switch''),
      (autofireSwitch, Some ''Autofire Switch''), (neoPixel, Some ''External NeoPixel''),
      (ledR, Some ''RGB LED Red''), (ledG, Some ''RGB LED Green''), (ledB, Some ''RGB LED Blue''),
      (camSDA, Some ''Camera SDA''), (camSCL, Some ''Camera SCL''),
      (periphSDA, Some ''Peripherals SDA''), (periphSCL, Some ''Peripherals SCL''),
      (battery, Some ''Battery Sensor (Unused)''),
      (analogX, Some ''Analog Stick X''), (analogY, Some ''Analog Stick Y''),
      (tempPin, Some ''Temp Sensor''), (wiiClockGen, Some ''Wii Cam Clock'')]"
    by code_simp
  from len 1 2 3 4 show ?thesis by blast
qed

theorem valuesNameList_covers_functions_witness:
  "btnUnmapped \<le> tempPin \<and> tempPin < boardInputsCount \<and>
   nat (tempPin + 1) < length valuesNameList \<and>
   valueName tempPin = Some ''Temp Sensor''"
proof -
  have h: "btnUnmapped \<le> tempPin \<and> tempPin < boardInputsCount" by (simp add: enum_defs)
  with valuesNameList_covers_functions[of tempPin]
  have "nat (tempPin + 1) < length valuesNameList"
    and "valueName tempPin = Some (valuesNameList ! nat (tempPin + 1))" by blast+
  moreover have "valuesNameList ! nat (tempPin + 1) = ''Temp Sensor''" by code_simp
  ultimately show ?thesis using h by simp
qed


subsection \<open>The reserved board \<open>generic\<close>\<close>

text \<open>
  Claim C1, as stated: \<open>boardsPresetsMap\<close> contains an entry for the reserved token
  \<open>generic\<close>, to which every unrecognized board identifier resolves. The table has no
  such entry: the lookup of \<open>generic\<close> finds nothing.
\<close>

theorem generic_not_in_boardsPresetsMap:
  "map_of boardsPresetsMap ''generic'' = None \<and> ''generic'' \<notin> set (keys boardsPresetsMap)"
  by (simp add: boardsPresetsMap_def keys_def)

text \<open>
  Claim C1, amended. \<open>boardsPresetsMap\<close> holds a default mapping for exactly the six
  supported boards; the lookup of any other board identifier, \<open>generic\<close> included, finds
  no mapping in it. The token \<open>generic\<close> is a key of \<open>boardsBoxPositions\<close> and of
  \<open>boardNames\<close> ("Unknown Board") only, not of \<open>boardsPresetsMap\<close> or
  \<open>boardsAltPresets\<close>.
\<close>

theorem boardsPresetsMap_supported_boards_only:
  "keys boardsPresetsMap =
     [''rpipico'', ''rpipicow'', ''adafruitItsyRP2040'', ''adafruitKB2040'',
      ''arduinoNanoRP2040'', ''waveshareZero''] \<and>
   (board \<notin> set (keys boardsPresetsMap) \<longrightarrow> map_of boardsPresetsMap board = None) \<and>
   (board \<in> set (keys boardsPresetsMap) \<longrightarrow> (\<exists>m. map_of boardsPresetsMap board = Some m)) \<and>
   ''generic'' \<notin> set (keys boardsPresetsMap) \<and>
   ''generic'' \<notin> set (keys boardsAltPresets) \<and>
   ''generic'' \<in> set (keys boardsBoxPositions) \<and>
   map_of boardNames ''generic'' = Some ''Unknown Board''"
proof -
  have 1: "keys boardsPresetsMap =
     [''rpipico'', ''rpipicow'', ''adafruitItsyRP2040'', ''adafruitKB2040'',
      ''arduinoNanoRP2040'', ''waveshareZero'']"
    by (simp add: boardsPresetsMap_def keys_def)
  have 2: "board \<notin> set (keys boardsPresetsMap) \<longrightarrow> map_of boardsPresetsMap board = None"
    by (simp add: keys_def map_of_eq_None_iff)
  have 3: "board \<in> set (keys boardsPresetsMap) \<longrightarrow> (\<exists>m. map_of boardsPresetsMap board = Some m)"
    unfolding keys_def using map_of_eq_None_iff[of boardsPresetsMap board] by auto
  have 4: "''generic'' \<notin> set (keys boardsPresetsMap)"
    unfolding 1 by simp
  have 5: "''generic'' \<notin> set (keys boardsAltPresets)"
    by (simp add: boardsAltPresets_def keys_def)
  have 6: "''generic'' \<in> set (keys boardsBoxPositions)"
    by (simp add: boardsBoxPositions_def keys_def)
  have 7: "map_of boardNames ''generic'' = Some ''Unknown Board''"
    by (simp add: boardNames_def)
  from 1 2 3 4 5 6 7 show ?thesis by blast
qed

theorem boardsPresetsMap_supported_boards_only_witness:
  "''generic'' \<notin> set (keys boardsPresetsMap) \<and> map_of boardsPresetsMap ''generic'' = None \<and>
   ''rpipicow'' \<in> set (keys boardsPresetsMap) \<and> map_of boardsPresetsMap ''rpipicow'' \<noteq> None"
proof -
  have a: "''generic'' \<notin> set (keys boardsPresetsMap)" "''rpipicow'' \<in> set (keys boardsPresetsMap)"
    by (simp_all add: boardsPresetsMap_def keys_def)
  from boardsPresetsMap_supported_boards_only[of "''generic''"] a(1)
  have "map_of boardsPresetsMap ''generic'' = None" by blast
  moreover from boardsPresetsMap_supported_boards_only[of "''rpipicow''"] a(2)
  have "map_of boardsPresetsMap ''rpipicow'' \<noteq> None" by auto
  ultimately show ?thesis using a by simp
qed

end
